theory Spec2Isabelle
  imports Complex_Main
begin

section \<open>The DRR orchestrator of \<^verbatim>\<open>src/drr.py\<close>\<close>

text \<open>
  \<^verbatim>\<open>drr.py\<close> holds one class, \<^verbatim>\<open>DRR\<close>: a constructor, \<^verbatim>\<open>forward\<close> and
  \<^verbatim>\<open>initialize_parameters\<close>. The object is modelled as a record that every
  method takes and returns; an exception is a value \<open>Inl e\<close>, returned together with
  the object as the exception leaves it (an assignment made before the exception stays
  made).

  The classes and functions that \<^verbatim>\<open>drr.py\<close> imports from the same package
  (\<^verbatim>\<open>get_device\<close>, \<^verbatim>\<open>Detector\<close>, \<^verbatim>\<open>Siddon\<close>) are not part of the sources. They
  are parameters of the model, collected in the record \<open>env\<close>, and every general
  theorem below holds for all of them.
\<close>

subsection \<open>Errors\<close>

text \<open>
  \<open>TypeError\<close> is what \<^verbatim>\<open>torch.tensor(x, dtype=torch.float32)\<close> raises when \<open>x\<close> is,
  or holds, \<^verbatim>\<open>None\<close>. \<open>UninitializedPoseError\<close> and \<open>ShapeMismatchError\<close> are the
  error kinds the specification names; \<^verbatim>\<open>drr.py\<close> raises neither itself.
  \<open>OtherError\<close> stands for any other exception of a collaborator.
\<close>

datatype error = TypeError | UninitializedPoseError | ShapeMismatchError | OtherError string

subsection \<open>Tensors and parameters\<close>

text \<open>
  A tensor carries its element type and its device as tags. \<open>'f\<close> is the type of the
  stored numbers; floating-point arithmetic is not modelled. A 0-dimensional tensor
  has shape \<open>[]\<close> and one element.
\<close>

datatype dtype = Float32 | Float64 | Int64

record ('dev, 'f) tensor =
  dtype :: dtype
  on_device :: 'dev
  shape :: "nat list"
  elems :: "'f list"

record ('dev, 'f) parameter =
  data :: "('dev, 'f) tensor"
  requires_grad :: bool

text \<open>\<^verbatim>\<open>nn.Parameter(data, requires_grad=True)\<close>\<close>

definition Parameter :: "('dev, 'f) tensor \<Rightarrow> bool \<Rightarrow> ('dev, 'f) parameter" where
  "Parameter t rg = \<lparr>data = t, requires_grad = rg\<rparr>"

subsection \<open>The collaborators\<close>

text \<open>
  Modelled from the spec: \<^verbatim>\<open>get_device\<close>, the constructors of \<^verbatim>\<open>Detector\<close> and
  \<^verbatim>\<open>Siddon\<close>, \<^verbatim>\<open>Detector.make_xrays\<close> and \<^verbatim>\<open>Siddon.raytrace\<close> are missing from the
  sources. The specification gives the last two as functions without side effects:
  the ray generator returns the source point and one direction per pixel, in row-major
  order, and the ray tracer returns one intensity per ray, in the order of the rays. So
  each collaborator is a function of its arguments here, any of which may raise, and
  the image is the list of the intensities.

  \<open>'v\<close> is the type of the numbers a caller passes (Python floats and ints), \<open>'dev\<close>
  that of a \<^verbatim>\<open>torch.device\<close>, \<open>'det\<close> and \<open>'sid\<close> those of a \<^verbatim>\<open>Detector\<close> and a
  \<^verbatim>\<open>Siddon\<close> object, \<open>'vol\<close> that of a CT volume. \<open>cast\<close> is the conversion of a
  Python number to an element of the given \<open>dtype\<close>, which \<^verbatim>\<open>torch.tensor\<close> performs.
\<close>

record ('v, 'f, 'dev, 'det, 'sid, 'vol) env =
  get_device :: "string \<Rightarrow> error + 'dev"
  Detector :: "int \<Rightarrow> int \<Rightarrow> 'v \<Rightarrow> 'v \<Rightarrow> string \<Rightarrow> error + 'det"
  Siddon :: "'vol \<Rightarrow> 'v \<times> 'v \<times> 'v \<Rightarrow> string \<Rightarrow> error + 'sid"
  make_xrays :: "'det \<Rightarrow> ('dev, 'f) parameter option \<Rightarrow> ('dev, 'f) parameter option
                  \<Rightarrow> ('dev, 'f) parameter option \<Rightarrow> error + 'f list \<times> 'f list list"
  raytrace :: "'sid \<Rightarrow> 'f list \<Rightarrow> 'f list list \<Rightarrow> error + 'f list"
  cast :: "dtype \<Rightarrow> 'v \<Rightarrow> 'f"

subsection \<open>\<^verbatim>\<open>torch.tensor\<close>\<close>

text \<open>
  \<^verbatim>\<open>torch.tensor(x, dtype=..., device=...)\<close> for a number or \<^verbatim>\<open>None\<close>, and for a list
  of them. \<open>tensor_args\<close> is the pair of the dtype and the device.
\<close>

definition torch_tensor ::
  "('v, 'f, 'dev, 'det, 'sid, 'vol) env \<Rightarrow> dtype \<times> 'dev \<Rightarrow> 'v option \<Rightarrow> error + ('dev, 'f) tensor"
where
  "torch_tensor env tensor_args x =
     (case x of
        None \<Rightarrow> Inl TypeError
      | Some v \<Rightarrow>
          Inr \<lparr>dtype = fst tensor_args, on_device = snd tensor_args, shape = [],
               elems = [cast env (fst tensor_args) v]\<rparr>)"

definition torch_tensor_list ::
  "('v, 'f, 'dev, 'det, 'sid, 'vol) env \<Rightarrow> dtype \<times> 'dev \<Rightarrow> 'v option list
     \<Rightarrow> error + ('dev, 'f) tensor"
where
  "torch_tensor_list env tensor_args xs =
     (case those xs of
        None \<Rightarrow> Inl TypeError
      | Some vs \<Rightarrow>
          Inr \<lparr>dtype = fst tensor_args, on_device = snd tensor_args, shape = [length vs],
               elems = map (cast env (fst tensor_args)) vs\<rparr>)"

subsection \<open>The class \<^verbatim>\<open>DRR\<close>\<close>

text \<open>
  The attributes of a \<^verbatim>\<open>DRR\<close> object. The three parameters are registered as
  \<^verbatim>\<open>None\<close> by the constructor.
\<close>

record ('dev, 'f, 'det, 'sid) DRR =
  device :: 'dev
  detector :: 'det
  siddon :: 'sid
  sdr :: "('dev, 'f) parameter option"
  rotations :: "('dev, 'f) parameter option"
  "translations" :: "('dev, 'f) parameter option"

text \<open>
  \<^verbatim>\<open>DRR.__init__(self, volume, spacing, height, delx, width=None, dely=None, device="cpu")\<close>.
  An omitted \<^verbatim>\<open>width\<close> or \<^verbatim>\<open>dely\<close> is \<open>None\<close>; the caller of the model passes
  \<open>''cpu''\<close> for an omitted \<^verbatim>\<open>device\<close>. The line for \<open>dely\<close> has \<open>delx\<close> in both
  branches, as the source has.
\<close>

definition DRR_init ::
  "('v, 'f, 'dev, 'det, 'sid, 'vol) env \<Rightarrow> 'vol \<Rightarrow> 'v \<times> 'v \<times> 'v \<Rightarrow> int \<Rightarrow> 'v
     \<Rightarrow> int option \<Rightarrow> 'v option \<Rightarrow> string \<Rightarrow> error + ('dev, 'f, 'det, 'sid) DRR"
where
  "DRR_init env volume spacing height delx width dely device' =
     (case get_device env device' of
        Inl e \<Rightarrow> Inl e
      | Inr self_device \<Rightarrow>
          (let width = (if width = None then height else the width);
               dely = (if dely = None then delx else delx)
           in case Detector env height width delx dely device' of
                Inl e \<Rightarrow> Inl e
              | Inr self_detector \<Rightarrow>
                  (case Siddon env volume spacing device' of
                     Inl e \<Rightarrow> Inl e
                   | Inr self_siddon \<Rightarrow>
                       Inr \<lparr>device = self_device, detector = self_detector,
                            siddon = self_siddon, sdr = None, rotations = None,
                            translations = None\<rparr>)))"

text \<open>
  \<^verbatim>\<open>DRR.initialize_parameters\<close>: three assignments in the source's order. An
  exception of \<^verbatim>\<open>torch.tensor\<close> ends the call and leaves the assignments made so far.
\<close>

definition initialize_parameters ::
  "('v, 'f, 'dev, 'det, 'sid, 'vol) env \<Rightarrow> ('dev, 'f, 'det, 'sid) DRR
     \<Rightarrow> 'v option \<Rightarrow> 'v option \<Rightarrow> 'v option \<Rightarrow> 'v option \<Rightarrow> 'v option \<Rightarrow> 'v option \<Rightarrow> 'v option
     \<Rightarrow> (error + unit) \<times> ('dev, 'f, 'det, 'sid) DRR"
where
  "initialize_parameters env self sdr' theta phi gamma bx by bz =
     (let tensor_args = (Float32, device self) in
      case torch_tensor env tensor_args sdr' of
        Inl e \<Rightarrow> (Inl e, self)
      | Inr t1 \<Rightarrow>
          (let self1 = self\<lparr>sdr := Some (Parameter t1 False)\<rparr> in
           case torch_tensor_list env tensor_args [theta, phi, gamma] of
             Inl e \<Rightarrow> (Inl e, self1)
           | Inr t2 \<Rightarrow>
               (let self2 = self1\<lparr>rotations := Some (Parameter t2 True)\<rparr> in
                case torch_tensor_list env tensor_args [bx, by, bz] of
                  Inl e \<Rightarrow> (Inl e, self2)
                | Inr t3 \<Rightarrow>
                    (Inr (), self2\<lparr>translations := Some (Parameter t3 True)\<rparr>))))"

text \<open>\<^verbatim>\<open>DRR.forward\<close>: the returned pair is the image, or the exception, and the object.\<close>

definition forward ::
  "('v, 'f, 'dev, 'det, 'sid, 'vol) env \<Rightarrow> ('dev, 'f, 'det, 'sid) DRR
     \<Rightarrow> 'v option \<Rightarrow> 'v option \<Rightarrow> 'v option \<Rightarrow> 'v option \<Rightarrow> 'v option \<Rightarrow> 'v option \<Rightarrow> 'v option
     \<Rightarrow> (error + 'f list) \<times> ('dev, 'f, 'det, 'sid) DRR"
where
  "forward env self sdr' theta phi gamma bx by bz =
     (case (if list_ex (\<lambda>arg. arg \<noteq> None) [sdr', theta, phi, gamma, bx, by, bz]
            then initialize_parameters env self sdr' theta phi gamma bx by bz
            else (Inr (), self)) of
        (Inl e, self') \<Rightarrow> (Inl e, self')
      | (Inr u, self') \<Rightarrow>
          (case make_xrays env (detector self') (sdr self') (rotations self')
                  (translations self') of
             Inl e \<Rightarrow> (Inl e, self')
           | Inr (source, rays) \<Rightarrow>
               (case raytrace env (siddon self') source rays of
                  Inl e \<Rightarrow> (Inl e, self')
                | Inr drr \<Rightarrow> (Inr drr, self'))))"


subsection \<open>The life of an object\<close>

text \<open>
  The two public methods as calls, and an object after a sequence of calls, whatever
  each call returned or raised.
\<close>

datatype 'v call =
    Forward "'v option" "'v option" "'v option" "'v option" "'v option" "'v option" "'v option"
  | InitializeParameters "'v option" "'v option" "'v option" "'v option" "'v option" "'v option"
      "'v option"

fun step ::
  "('v, 'f, 'dev, 'det, 'sid, 'vol) env \<Rightarrow> ('dev, 'f, 'det, 'sid) DRR \<Rightarrow> 'v call
     \<Rightarrow> ('dev, 'f, 'det, 'sid) DRR"
where
  "step env self (Forward sdr' theta phi gamma bx by bz) =
     snd (forward env self sdr' theta phi gamma bx by bz)"
| "step env self (InitializeParameters sdr' theta phi gamma bx by bz) =
     snd (initialize_parameters env self sdr' theta phi gamma bx by bz)"

fun run ::
  "('v, 'f, 'dev, 'det, 'sid, 'vol) env \<Rightarrow> ('dev, 'f, 'det, 'sid) DRR \<Rightarrow> 'v call list
     \<Rightarrow> ('dev, 'f, 'det, 'sid) DRR"
where
  "run env self [] = self"
| "run env self (c # cs) = run env (step env self c) cs"

subsection \<open>Statements of the specification\<close>

text \<open>
  The specification's \<^verbatim>\<open>render(params)\<close>, in its words: \<^verbatim>\<open>set_pose\<close>, then
  \<^verbatim>\<open>render\<close> with no parameters. It is compared with \<open>forward\<close> below.
\<close>

definition set_pose_then_render ::
  "('v, 'f, 'dev, 'det, 'sid, 'vol) env \<Rightarrow> ('dev, 'f, 'det, 'sid) DRR
     \<Rightarrow> 'v option \<Rightarrow> 'v option \<Rightarrow> 'v option \<Rightarrow> 'v option \<Rightarrow> 'v option \<Rightarrow> 'v option \<Rightarrow> 'v option
     \<Rightarrow> (error + 'f list) \<times> ('dev, 'f, 'det, 'sid) DRR"
where
  "set_pose_then_render env self sdr' theta phi gamma bx by bz =
     (case initialize_parameters env self sdr' theta phi gamma bx by bz of
        (Inl e, self') \<Rightarrow> (Inl e, self')
      | (Inr u, self') \<Rightarrow> forward env self' None None None None None None None)"

text \<open>A stored parameter that is a \<open>float32\<close> tensor on the device \<open>dev\<close>.\<close>

definition float32_on :: "'dev \<Rightarrow> ('dev, 'f) parameter option \<Rightarrow> bool" where
  "float32_on dev p =
     (case p of None \<Rightarrow> True | Some q \<Rightarrow> dtype (data q) = Float32 \<and> on_device (data q) = dev)"

subsection \<open>Stand-ins for the collaborators\<close>

text \<open>
  Modelled from the spec: concrete collaborators, to run the orchestrator on concrete
  inputs. Numbers are reals and \<open>cast\<close> does not round. The constructor of
  \<^verbatim>\<open>Detector\<close> keeps the geometry and refuses one that the specification calls
  inconsistent (a height, width, \<open>delx\<close> or \<open>dely\<close> that is not positive) with
  \<open>ShapeMismatchError\<close>. \<open>spec_make_xrays\<close> gives one ray per pixel for a pose that
  is set; a render before any pose is set is refused with the error the specification
  names for it, \<open>UninitializedPoseError\<close>. \<open>spec_raytrace\<close> gives one intensity per
  ray. Neither the geometry of the rays nor the line integral is modelled: the numbers
  they return only depend on every input. What the ray generator of the package does
  with a pose that is not set is not known, and no theorem below runs
  \<open>spec_make_xrays\<close> on one.
\<close>

record DetectorGeometry =
  height :: int
  width :: int
  delx :: real
  dely :: real

definition spec_Detector :: "int \<Rightarrow> int \<Rightarrow> real \<Rightarrow> real \<Rightarrow> string \<Rightarrow> error + DetectorGeometry" where
  "spec_Detector h w dx dy dev =
     (if 0 < h \<and> 0 < w \<and> 0 < dx \<and> 0 < dy
      then Inr \<lparr>height = h, width = w, delx = dx, dely = dy\<rparr>
      else Inl ShapeMismatchError)"

definition spec_make_xrays ::
  "DetectorGeometry \<Rightarrow> (string, real) parameter option \<Rightarrow> (string, real) parameter option
     \<Rightarrow> (string, real) parameter option \<Rightarrow> error + real list \<times> real list list"
where
  "spec_make_xrays det p r t =
     (case (p, r, t) of
        (Some p', Some r', Some t') \<Rightarrow>
          Inr (elems (data p') @ elems (data t'),
               replicate (nat (height det) * nat (width det)) (elems (data r')))
      | _ \<Rightarrow> Inl UninitializedPoseError)"

definition spec_raytrace ::
  "real list \<times> real \<times> real \<times> real \<Rightarrow> real list \<Rightarrow> real list list \<Rightarrow> error + real list"
where
  "spec_raytrace sid source rays =
     Inr (map (\<lambda>ray. sum_list (fst sid) + sum_list source + sum_list ray) rays)"

definition spec_env ::
  "(real, real, string, DetectorGeometry, real list \<times> real \<times> real \<times> real, real list) env"
where
  "spec_env =
     \<lparr>get_device = Inr, Detector = spec_Detector,
      Siddon = (\<lambda>volume spacing dev. Inr (volume, spacing)),
      make_xrays = spec_make_xrays, raytrace = spec_raytrace, cast = (\<lambda>dt v. v)\<rparr>"

text \<open>
  A 2 by 2 detector over a volume of two voxels: the object as constructed, and after
  the pose \<open>sdr = 100\<close>, all angles and translations \<open>0\<close>, is set.
\<close>

definition fresh_drr ::
  "(string, real, DetectorGeometry, real list \<times> real \<times> real \<times> real) DRR"
where
  "fresh_drr =
     \<lparr>device = ''cpu'', detector = \<lparr>height = 2, width = 2, delx = 1, dely = 1\<rparr>,
      siddon = ([1, 1], (1, 1, 1)), sdr = None, rotations = None, translations = None\<rparr>"

definition ready_drr ::
  "(string, real, DetectorGeometry, real list \<times> real \<times> real \<times> real) DRR"
where
  "ready_drr =
     fresh_drr
       \<lparr>sdr := Some \<lparr>data = \<lparr>dtype = Float32, on_device = ''cpu'', shape = [],
                              elems = [100]\<rparr>,
                      requires_grad = False\<rparr>,
        rotations := Some \<lparr>data = \<lparr>dtype = Float32, on_device = ''cpu'', shape = [3],
                                    elems = [0, 0, 0]\<rparr>,
                            requires_grad = True\<rparr>,
        translations := Some \<lparr>data = \<lparr>dtype = Float32, on_device = ''cpu'', shape = [3],
                                       elems = [0, 0, 0]\<rparr>,
                               requires_grad = True\<rparr>\<rparr>"

section \<open>Properties\<close>

subsection \<open>Auxiliary facts\<close>

lemma torch_tensor_Some:
  "torch_tensor env (dt, dev) (Some v) =
     Inr \<lparr>dtype = dt, on_device = dev, shape = [], elems = [cast env dt v]\<rparr>"
  by (simp add: torch_tensor_def)

lemma torch_tensor_None: "torch_tensor env ta None = Inl TypeError"
  by (simp add: torch_tensor_def)

lemma torch_tensor_list3_Some:
  "torch_tensor_list env (dt, dev) [Some x, Some y, Some z] =
     Inr \<lparr>dtype = dt, on_device = dev, shape = [3],
          elems = [cast env dt x, cast env dt y, cast env dt z]\<rparr>"
  by (simp add: torch_tensor_list_def)

lemma torch_tensor_list3_None:
  "x = None \<or> y = None \<or> z = None \<Longrightarrow> torch_tensor_list env ta [x, y, z] = Inl TypeError"
  by (auto simp: torch_tensor_list_def split: option.splits)

lemma torch_tensor_list_tags:
  "torch_tensor_list env (dt, dev) xs = Inr t \<Longrightarrow> dtype t = dt \<and> on_device t = dev"
  by (auto simp: torch_tensor_list_def split: option.splits)

lemma torch_tensor_tags:
  "torch_tensor env (dt, dev) x = Inr t \<Longrightarrow> dtype t = dt \<and> on_device t = dev"
  by (auto simp: torch_tensor_def split: option.splits)

text \<open>With no argument, \<open>forward\<close> stores nothing and renders the stored pose.\<close>

lemma forward_no_args:
  "forward env s None None None None None None None =
     ((case make_xrays env (detector s) (sdr s) (rotations s) (translations s) of
         Inl e \<Rightarrow> Inl e
       | Inr (source, rays) \<Rightarrow> raytrace env (siddon s) source rays), s)"
  by (simp add: forward_def split: sum.splits prod.splits)

text \<open>With an argument, \<open>forward\<close> starts with \<open>initialize_parameters\<close>.\<close>

lemma forward_some_arg:
  "list_ex (\<lambda>arg. arg \<noteq> None) [a, b, c, d, e, f, g] \<Longrightarrow>
   forward env s a b c d e f g = set_pose_then_render env s a b c d e f g"
  unfolding set_pose_then_render_def forward_no_args
  by (simp add: forward_def split: sum.splits prod.splits)

text \<open>No method assigns the device, the detector or the projector.\<close>

lemma initialize_parameters_frame:
  "device (snd (initialize_parameters env s a b c d e f g)) = device s \<and>
   detector (snd (initialize_parameters env s a b c d e f g)) = detector s \<and>
   siddon (snd (initialize_parameters env s a b c d e f g)) = siddon s"
  by (simp add: initialize_parameters_def Let_def split: sum.splits)

lemma forward_frame:
  "device (snd (forward env s a b c d e f g)) = device s \<and>
   detector (snd (forward env s a b c d e f g)) = detector s \<and>
   siddon (snd (forward env s a b c d e f g)) = siddon s"
proof (cases "list_ex (\<lambda>arg. arg \<noteq> None) [a, b, c, d, e, f, g]")
  case True
  then have "snd (forward env s a b c d e f g) = snd (initialize_parameters env s a b c d e f g)"
    by (simp add: forward_def split: sum.splits prod.splits)
  then show ?thesis
    by (simp add: initialize_parameters_frame)
next
  case False
  then have "snd (forward env s a b c d e f g) = s"
    by (simp add: forward_def split: sum.splits prod.splits)
  then show ?thesis
    by simp
qed

lemma step_frame:
  "device (step env s c) = device s \<and> detector (step env s c) = detector s \<and>
   siddon (step env s c) = siddon s"
  by (cases c) (simp_all add: forward_frame initialize_parameters_frame)

lemma run_frame:
  "device (run env s cs) = device s \<and> detector (run env s cs) = detector s \<and>
   siddon (run env s cs) = siddon s"
  by (induction cs arbitrary: s) (simp_all add: step_frame)

text \<open>What the constructor passes on and what it stores.\<close>

lemma DRR_init_Inr:
  "DRR_init env volume spacing h dx w dy dev = Inr s \<Longrightarrow>
     get_device env dev = Inr (device s) \<and>
     Detector env h (case w of None \<Rightarrow> h | Some w' \<Rightarrow> w') dx dx dev = Inr (detector s) \<and>
     Siddon env volume spacing dev = Inr (siddon s) \<and>
     sdr s = None \<and> rotations s = None \<and> translations s = None"
  by (auto simp: DRR_init_def Let_def split: sum.splits option.splits)

lemma DRR_init_dely_unused:
  "DRR_init env volume spacing h dx w (Some dy) dev = DRR_init env volume spacing h dx w None dev"
  by (simp add: DRR_init_def)


lemma initialize_parameters_complete:
  "initialize_parameters env s (Some a) (Some b) (Some c) (Some d) (Some e) (Some f) (Some g) =
     (Inr (),
      s\<lparr>sdr := Some (Parameter \<lparr>dtype = Float32, on_device = device s, shape = [],
                                elems = [cast env Float32 a]\<rparr> False),
        rotations := Some (Parameter \<lparr>dtype = Float32, on_device = device s, shape = [3],
                                      elems = [cast env Float32 b, cast env Float32 c,
                                               cast env Float32 d]\<rparr> True),
        translations := Some (Parameter \<lparr>dtype = Float32, on_device = device s, shape = [3],
                                         elems = [cast env Float32 e, cast env Float32 f,
                                                  cast env Float32 g]\<rparr> True)\<rparr>)"
  by (simp add: initialize_parameters_def torch_tensor_Some torch_tensor_list3_Some)

lemma initialize_parameters_float32:
  assumes "float32_on (device s) (sdr s)" "float32_on (device s) (rotations s)"
    "float32_on (device s) (translations s)"
  shows "float32_on (device s) (sdr (snd (initialize_parameters env s a b c d e f g))) \<and>
         float32_on (device s) (rotations (snd (initialize_parameters env s a b c d e f g))) \<and>
         float32_on (device s) (translations (snd (initialize_parameters env s a b c d e f g)))"
  using assms
  by (auto simp: initialize_parameters_def Let_def float32_on_def Parameter_def
      split: sum.splits dest: torch_tensor_tags torch_tensor_list_tags)

lemma forward_float32:
  assumes "float32_on (device s) (sdr s)" "float32_on (device s) (rotations s)"
    "float32_on (device s) (translations s)"
  shows "float32_on (device s) (sdr (snd (forward env s a b c d e f g))) \<and>
         float32_on (device s) (rotations (snd (forward env s a b c d e f g))) \<and>
         float32_on (device s) (translations (snd (forward env s a b c d e f g)))"
proof (cases "list_ex (\<lambda>arg. arg \<noteq> None) [a, b, c, d, e, f, g]")
  case True
  then have "snd (forward env s a b c d e f g) = snd (initialize_parameters env s a b c d e f g)"
    by (simp add: forward_def split: sum.splits prod.splits)
  then show ?thesis
    using initialize_parameters_float32 [OF assms] by simp
next
  case False
  then have "snd (forward env s a b c d e f g) = s"
    by (simp add: forward_def split: sum.splits prod.splits)
  then show ?thesis
    using assms by simp
qed

lemma step_float32:
  assumes "float32_on (device s) (sdr s)" "float32_on (device s) (rotations s)"
    "float32_on (device s) (translations s)"
  shows "float32_on (device s) (sdr (step env s c)) \<and>
         float32_on (device s) (rotations (step env s c)) \<and>
         float32_on (device s) (translations (step env s c))"
proof (cases c)
  case (Forward a b c d e f g)
  then show ?thesis
    using forward_float32 [OF assms, of env a b c d e f g] by simp
next
  case (InitializeParameters a b c d e f g)
  then show ?thesis
    using initialize_parameters_float32 [OF assms, of env a b c d e f g] by simp
qed

lemma run_float32:
  assumes "float32_on (device s) (sdr s)" "float32_on (device s) (rotations s)"
    "float32_on (device s) (translations s)"
  shows "float32_on (device s) (sdr (run env s cs)) \<and>
         float32_on (device s) (rotations (run env s cs)) \<and>
         float32_on (device s) (translations (run env s cs))"
  using assms
proof (induction cs arbitrary: s)
  case Nil
  then show ?case by simp
next
  case (Cons c cs)
  have dev: "device (step env s c) = device s"
    by (simp add: step_frame)
  have "float32_on (device (step env s c)) (sdr (step env s c))"
    "float32_on (device (step env s c)) (rotations (step env s c))"
    "float32_on (device (step env s c)) (translations (step env s c))"
    using step_float32 [OF Cons.prems, of env c] by (simp_all add: dev)
  from Cons.IH [OF this] show ?case
    by (simp add: dev)
qed

text \<open>The stand-ins at the example inputs.\<close>

lemma spec_env_simps:
  "get_device spec_env = Inr" "Detector spec_env = spec_Detector"
  "Siddon spec_env = (\<lambda>volume spacing dev. Inr (volume, spacing))"
  "make_xrays spec_env = spec_make_xrays" "raytrace spec_env = spec_raytrace"
  "cast spec_env = (\<lambda>dt v. v)"
  by (simp_all add: spec_env_def)

lemma DRR_init_fresh_drr:
  "DRR_init spec_env [1, 1] (1, 1, 1) 2 1 None None ''cpu'' = Inr fresh_drr"
  by (simp add: DRR_init_def spec_env_simps spec_Detector_def fresh_drr_def)

lemma initialize_parameters_ready_drr:
  "initialize_parameters spec_env fresh_drr (Some 100) (Some 0) (Some 0) (Some 0)
     (Some 0) (Some 0) (Some 0) = (Inr (), ready_drr)"
  by (simp add: initialize_parameters_complete spec_env_simps Parameter_def fresh_drr_def
      ready_drr_def)

lemma forward_ready_drr:
  "forward spec_env ready_drr None None None None None None None =
     (Inr [102, 102, 102, 102], ready_drr)"
  by (simp add: forward_no_args spec_env_simps spec_make_xrays_def spec_raytrace_def
      ready_drr_def fresh_drr_def eval_nat_numeral)

subsection \<open>The defaults of the constructor\<close>

text \<open>
  C2 (not met by the code). The constructor is run with \<open>height = 4\<close>, \<open>delx = 1\<close>,
  \<open>width\<close> omitted and \<open>dely = 2\<close>: the detector is constructed with \<open>width = 4\<close>, the
  default, and with \<open>dely = 1\<close>, the value of \<open>delx\<close>, not the \<open>2\<close> the caller
  supplied.
\<close>

theorem DRR_init_supplied_dely:
  "DRR_init spec_env [1, 1] (1, 1, 1) 4 1 None (Some 2) ''cpu'' =
     Inr \<lparr>device = ''cpu'', detector = \<lparr>height = 4, width = 4, delx = 1, dely = 1\<rparr>,
          siddon = ([1, 1], (1, 1, 1)), sdr = None, rotations = None, translations = None\<rparr>"
  by (simp add: DRR_init_def spec_env_simps spec_Detector_def)

subsection \<open>A pose with missing scalars\<close>

text \<open>
  C3, as the code has it. A call of \<open>forward\<close> that supplies at least one and not all
  of the seven scalars fails with the \<open>TypeError\<close> of \<^verbatim>\<open>torch.tensor\<close>, and it never
  changes the stored translations, the device, the detector or the projector. When
  \<open>sdr\<close> is among the missing scalars, nothing at all is changed. When \<open>sdr\<close> is
  supplied, it is stored before the failure; the stored rotations are replaced as well
  when all three angles are supplied, and are left as they were otherwise.
\<close>

theorem forward_partial_pose:
  assumes "list_ex (\<lambda>arg. arg \<noteq> None) [a, b, c, d, e, f, g]"
    and "list_ex (\<lambda>arg. arg = None) [a, b, c, d, e, f, g]"
  shows "case forward env s a b c d e f g of
           (result, s') \<Rightarrow>
             result = Inl TypeError \<and>
             device s' = device s \<and> detector s' = detector s \<and> siddon s' = siddon s \<and>
             translations s' = translations s \<and>
             (case a of
                None \<Rightarrow> s' = s
              | Some v \<Rightarrow>
                  sdr s' = Some (Parameter \<lparr>dtype = Float32, on_device = device s, shape = [],
                                           elems = [cast env Float32 v]\<rparr> False) \<and>
                  rotations s' =
                    (case those [b, c, d] of
                       None \<Rightarrow> rotations s
                     | Some vs \<Rightarrow>
                         Some (Parameter \<lparr>dtype = Float32, on_device = device s,
                                          shape = [3], elems = map (cast env Float32) vs\<rparr>
                                 True)))"
proof (cases a)
  case None
  then show ?thesis
    using assms(1)
    by (simp add: forward_def initialize_parameters_def torch_tensor_None)
next
  case (Some v)
  show ?thesis
  proof (cases "those [b, c, d]")
    case None
    then have "torch_tensor_list env (Float32, device s) [b, c, d] = Inl TypeError"
      by (simp add: torch_tensor_list_def)
    then show ?thesis
      using Some None
      by (simp add: forward_def initialize_parameters_def torch_tensor_Some)
  next
    case vs: (Some vs)
    then have bcd: "b \<noteq> None \<and> c \<noteq> None \<and> d \<noteq> None"
      by (auto split: option.splits)
    with assms(2) Some have "e = None \<or> f = None \<or> g = None"
      by simp
    then have efg: "torch_tensor_list env (Float32, device s) [e, f, g] = Inl TypeError"
      by (rule torch_tensor_list3_None)
    have "torch_tensor_list env (Float32, device s) [b, c, d] =
            Inr \<lparr>dtype = Float32, on_device = device s, shape = [length vs],
                 elems = map (cast env Float32) vs\<rparr>"
      using vs by (simp add: torch_tensor_list_def)
    moreover have "length vs = 3"
      using vs by (auto split: option.splits)
    ultimately show ?thesis
      using Some vs efg
      by (simp add: forward_def initialize_parameters_def torch_tensor_Some)
  qed
qed

theorem forward_partial_pose_witness:
  "list_ex (\<lambda>arg. arg \<noteq> None) [Some 50, Some 1, None, Some 0, Some 0, Some 0, Some (0::real)] \<and>
   list_ex (\<lambda>arg. arg = None) [Some 50, Some 1, None, Some 0, Some 0, Some 0, Some (0::real)] \<and>
   forward spec_env ready_drr (Some 50) (Some 1) None (Some 0) (Some 0) (Some 0) (Some 0) =
     (Inl TypeError,
      ready_drr\<lparr>sdr := Some \<lparr>data = \<lparr>dtype = Float32, on_device = ''cpu'', shape = [],
                                      elems = [50]\<rparr>,
                              requires_grad = False\<rparr>\<rparr>)"
  using forward_partial_pose [where a = "Some 50" and b = "Some 1" and c = None
      and d = "Some 0" and e = "Some 0" and f = "Some 0" and g = "Some 0"
      and env = spec_env and s = ready_drr]
  by (auto simp: spec_env_simps Parameter_def ready_drr_def fresh_drr_def
      split: prod.splits)

text \<open>
  C3 as stated fails: on the object with the pose \<open>sdr = 100\<close>, a call that supplies
  \<open>sdr = 50\<close> and nothing else fails, and the stored \<open>sdr\<close> is \<open>50\<close> afterwards.
\<close>

theorem forward_partial_pose_counterexample:
  "fst (forward spec_env ready_drr (Some 50) None None None None None None) = Inl TypeError \<and>
   map_option (elems \<circ> data) (sdr ready_drr) = Some [100] \<and>
   map_option (elems \<circ> data)
     (sdr (snd (forward spec_env ready_drr (Some 50) None None None None None None))) =
     Some [50]"
  by (simp add: forward_def initialize_parameters_def torch_tensor_Some torch_tensor_list_def
      spec_env_simps Parameter_def ready_drr_def fresh_drr_def)


subsection \<open>Which parameters take a gradient\<close>

text \<open>
  C4, as the code has it. After \<open>initialize_parameters\<close> has set a pose, all three
  parameters are registered; the rotations and the translations are registered with
  \<open>requires_grad = True\<close>, and \<open>sdr\<close> with \<open>requires_grad = False\<close> (the source
  takes \<open>sdr\<close> as given, for a registration with six degrees of freedom).
\<close>

theorem initialize_parameters_requires_grad:
  assumes "initialize_parameters env s a b c d e f g = (Inr u, s')"
  shows "map_option requires_grad (sdr s') = Some False \<and>
         map_option requires_grad (rotations s') = Some True \<and>
         map_option requires_grad (translations s') = Some True"
  using assms
  by (auto simp: initialize_parameters_def Let_def Parameter_def split: sum.splits)

theorem initialize_parameters_requires_grad_witness:
  "initialize_parameters spec_env fresh_drr (Some 100) (Some 0) (Some 0) (Some 0)
     (Some 0) (Some 0) (Some 0) = (Inr (), ready_drr) \<and>
   map_option requires_grad (sdr ready_drr) = Some False \<and>
   map_option requires_grad (rotations ready_drr) = Some True \<and>
   map_option requires_grad (translations ready_drr) = Some True"
  using initialize_parameters_requires_grad [OF initialize_parameters_ready_drr]
    initialize_parameters_ready_drr
  by simp

text \<open>
  C4 as stated fails: after the pose \<open>sdr = 100\<close>, angles and translations \<open>0\<close>, is
  set on the example object, the stored \<open>sdr\<close> does not take a gradient.
\<close>

theorem initialize_parameters_requires_grad_counterexample:
  "map_option requires_grad
     (sdr (snd (initialize_parameters spec_env fresh_drr (Some 100) (Some 0) (Some 0) (Some 0)
                  (Some 0) (Some 0) (Some 0)))) = Some False"
  by (simp add: initialize_parameters_ready_drr ready_drr_def)

subsection \<open>Rendering with parameters\<close>

text \<open>
  C5. For a complete tuple of the seven scalars, \<open>forward\<close> with these arguments returns
  the same image and the same object as \<open>initialize_parameters\<close> with them followed by
  \<open>forward\<close> with no argument; the first of the two steps succeeds.
\<close>

theorem forward_eq_set_pose_then_render:
  "forward env s (Some a) (Some b) (Some c) (Some d) (Some e) (Some f) (Some g) =
     set_pose_then_render env s (Some a) (Some b) (Some c) (Some d) (Some e) (Some f) (Some g) \<and>
   fst (initialize_parameters env s (Some a) (Some b) (Some c) (Some d) (Some e) (Some f)
          (Some g)) = Inr ()"
  by (simp add: forward_some_arg initialize_parameters_complete)

theorem forward_eq_set_pose_then_render_witness:
  "forward spec_env fresh_drr (Some 100) (Some 0) (Some 0) (Some 0) (Some 0) (Some 0) (Some 0) =
     (Inr [102, 102, 102, 102], ready_drr) \<and>
   set_pose_then_render spec_env fresh_drr (Some 100) (Some 0) (Some 0) (Some 0) (Some 0)
     (Some 0) (Some 0) = (Inr [102, 102, 102, 102], ready_drr)"
proof -
  have "set_pose_then_render spec_env fresh_drr (Some 100) (Some 0) (Some 0) (Some 0) (Some 0)
          (Some 0) (Some 0) = (Inr [102, 102, 102, 102], ready_drr)"
    by (simp add: set_pose_then_render_def initialize_parameters_ready_drr forward_ready_drr)
  then show ?thesis
    using forward_eq_set_pose_then_render [of spec_env fresh_drr 100 0 0 0 0 0 0] by simp
qed

subsection \<open>Rendering without parameters\<close>

text \<open>
  C6. A call of \<open>forward\<close> with all seven arguments \<open>None\<close> returns the object as it
  was, so the stored \<open>sdr\<close>, rotations and translations are unchanged, and what it
  returns is the outcome of \<open>make_xrays\<close> on the stored pose followed by \<open>raytrace\<close>.
\<close>

theorem forward_no_args_keeps_pose:
  "snd (forward env s None None None None None None None) = s \<and>
   sdr (snd (forward env s None None None None None None None)) = sdr s \<and>
   rotations (snd (forward env s None None None None None None None)) = rotations s \<and>
   translations (snd (forward env s None None None None None None None)) = translations s \<and>
   fst (forward env s None None None None None None None) =
     (case make_xrays env (detector s) (sdr s) (rotations s) (translations s) of
        Inl e \<Rightarrow> Inl e
      | Inr (source, rays) \<Rightarrow> raytrace env (siddon s) source rays)"
  by (simp add: forward_no_args)

theorem forward_no_args_keeps_pose_witness:
  "snd (forward spec_env ready_drr None None None None None None None) = ready_drr \<and>
   fst (forward spec_env ready_drr None None None None None None None) =
     Inr [102, 102, 102, 102]"
  using forward_no_args_keeps_pose [of spec_env ready_drr] by (simp add: forward_ready_drr)

subsection \<open>The geometry of the detector\<close>

text \<open>
  C7 (not met by the code). The constructor of the stand-in \<^verbatim>\<open>Detector\<close> refuses
  \<open>dely = -1\<close> with \<open>ShapeMismatchError\<close>. The constructor of \<^verbatim>\<open>DRR\<close>, run with
  \<open>height = 4\<close>, \<open>delx = 1\<close> and \<open>dely = -1\<close>, constructs the detector with \<open>dely = 1\<close>
  and returns an object: the supplied \<open>dely\<close> never reaches the detector.
\<close>

theorem DRR_init_nonpositive_dely:
  "Detector spec_env 4 4 1 (- 1) ''cpu'' = Inl ShapeMismatchError \<and>
   DRR_init spec_env [1, 1] (1, 1, 1) 4 1 None (Some (- 1)) ''cpu'' =
     Inr \<lparr>device = ''cpu'', detector = \<lparr>height = 4, width = 4, delx = 1, dely = 1\<rparr>,
          siddon = ([1, 1], (1, 1, 1)), sdr = None, rotations = None, translations = None\<rparr>"
  by (simp add: DRR_init_def spec_env_simps spec_Detector_def)

subsection \<open>The element type and the device of a stored pose\<close>

text \<open>
  C10. At any time in the life of an object constructed for the device that
  \<open>get_device\<close> returned, every stored parameter is a \<open>float32\<close> tensor on that
  device; and \<open>initialize_parameters\<close> with seven numbers, of whatever type \<open>'v\<close> the
  caller's numbers are, succeeds and stores the seven numbers converted to \<open>float32\<close>
  in tensors on that device.
\<close>

theorem pose_stored_as_float32:
  assumes "DRR_init env volume spacing h dx w dy dev = Inr s0"
  shows "get_device env dev = Inr (device (run env s0 calls)) \<and>
         float32_on (device s0) (sdr (run env s0 calls)) \<and>
         float32_on (device s0) (rotations (run env s0 calls)) \<and>
         float32_on (device s0) (translations (run env s0 calls)) \<and>
         initialize_parameters env (run env s0 calls)
             (Some a) (Some b) (Some c) (Some d) (Some e) (Some f) (Some g) =
           (Inr (),
            (run env s0 calls)
              \<lparr>sdr := Some (Parameter \<lparr>dtype = Float32, on_device = device s0, shape = [],
                                       elems = [cast env Float32 a]\<rparr> False),
               rotations := Some (Parameter \<lparr>dtype = Float32, on_device = device s0,
                                             shape = [3],
                                             elems = [cast env Float32 b, cast env Float32 c,
                                                      cast env Float32 d]\<rparr> True),
               translations := Some (Parameter \<lparr>dtype = Float32, on_device = device s0,
                                                shape = [3],
                                                elems = [cast env Float32 e, cast env Float32 f,
                                                         cast env Float32 g]\<rparr> True)\<rparr>)"
proof -
  have init: "get_device env dev = Inr (device s0)" "sdr s0 = None" "rotations s0 = None"
    "translations s0 = None"
    using DRR_init_Inr [OF assms] by simp_all
  have dev: "device (run env s0 calls) = device s0"
    by (simp add: run_frame)
  have "float32_on (device s0) (sdr s0)" "float32_on (device s0) (rotations s0)"
    "float32_on (device s0) (translations s0)"
    by (simp_all add: init float32_on_def)
  from run_float32 [OF this, of env calls] show ?thesis
    by (simp add: init dev initialize_parameters_complete)
qed

theorem pose_stored_as_float32_witness:
  "DRR_init spec_env [1, 1] (1, 1, 1) 2 1 None None ''cpu'' = Inr fresh_drr \<and>
   get_device spec_env ''cpu'' = Inr ''cpu'' \<and>
   float32_on ''cpu''
     (sdr (run spec_env fresh_drr [Forward (Some 50) None None None None None None])) \<and>
   initialize_parameters spec_env
       (run spec_env fresh_drr [Forward (Some 50) None None None None None None])
       (Some 100) (Some 0) (Some 0) (Some 0) (Some 0) (Some 0) (Some 0) = (Inr (), ready_drr)"
proof -
  have after: "run spec_env fresh_drr [Forward (Some 50) None None None None None None] =
      fresh_drr\<lparr>sdr := Some \<lparr>data = \<lparr>dtype = Float32, on_device = ''cpu'', shape = [],
                                      elems = [50]\<rparr>,
                              requires_grad = False\<rparr>\<rparr>"
    by (simp add: forward_def initialize_parameters_def torch_tensor_Some torch_tensor_list_def
        spec_env_simps Parameter_def fresh_drr_def)
  show ?thesis
    using pose_stored_as_float32 [OF DRR_init_fresh_drr,
        of "[Forward (Some 50) None None None None None None]" 100 0 0 0 0 0 0]
      DRR_init_fresh_drr
    unfolding after
    by (simp add: spec_env_simps fresh_drr_def ready_drr_def Parameter_def)
qed

end
